theory Spec2Isabelle
  imports Main
begin

section \<open>JavaScript strings\<close>

text \<open>
  A JavaScript string is modelled as a \<open>string\<close>, one \<open>char\<close> per code unit (code units
  below 256). The three characters that cannot be written inside a literal get a name.
\<close>

abbreviation dq :: char where "dq \<equiv> CHR 0x22"
abbreviation bsl :: char where "bsl \<equiv> CHR 0x5C"
abbreviation nl :: char where "nl \<equiv> CHR 0x0A"

text \<open>White space as \<open>String.prototype.trim\<close> and the regular expression class \<open>\s\<close>
  see it: tab, line feed, vertical tab, form feed, carriage return, space, no-break space.\<close>

definition is_space :: "char \<Rightarrow> bool" where
  "is_space c = (c \<in> set [CHR 0x09, CHR 0x0A, CHR 0x0B, CHR 0x0C, CHR 0x0D, CHR 0x20, CHR 0xA0])"

definition trim :: "string \<Rightarrow> string" where
  "trim s = rev (dropWhile is_space (rev (dropWhile is_space s)))"

text \<open>\<open>s.split(c)\<close> for a one-character separator: the empty string gives one empty piece.\<close>

fun split_on :: "char \<Rightarrow> string \<Rightarrow> string list" where
  "split_on c [] = [[]]"
| "split_on c (x # xs) =
     (if x = c then [] # split_on c xs
      else (case split_on c xs of [] \<Rightarrow> [[x]] | p # ps \<Rightarrow> (x # p) # ps))"

text \<open>\<open>xs.join(sep)\<close> on an array of strings.\<close>

fun join_with :: "string \<Rightarrow> string list \<Rightarrow> string" where
  "join_with sep [] = []"
| "join_with sep [x] = x"
| "join_with sep (x # y # ys) = x @ sep @ join_with sep (y # ys)"

definition startsWith :: "string \<Rightarrow> string \<Rightarrow> bool" where
  "startsWith s p = (take (length p) s = p)"

text \<open>\<open>s.includes(p)\<close>: \<open>p\<close> occurs in \<open>s\<close> as a contiguous substring.\<close>

fun includes_str :: "string \<Rightarrow> string \<Rightarrow> bool" where
  "includes_str [] p = (p = [])"
| "includes_str (x # xs) p = (startsWith (x # xs) p \<or> includes_str xs p)"

text \<open>The decimal rendering of a non-negative integer (array lengths and indices).\<close>

fun show_nat :: "nat \<Rightarrow> string" where
  "show_nat n =
     (if n < 10 then [''0123456789'' ! n]
      else show_nat (n div 10) @ [''0123456789'' ! (n mod 10)])"

declare show_nat.simps [simp del]

section \<open>JavaScript values and errors\<close>

text \<open>
  Tool and prompt arguments arrive as parsed JSON. A number is represented by its
  rendering \<open>String(n)\<close>, the only thing besides its truthiness the code observes of it.
  \<open>JUndefined\<close> is the value of a property that is absent.
\<close>

datatype jsval =
    JUndefined
  | JNull
  | JBool bool
  | JNum string
  | JStr string
  | JArr "jsval list"
  | JObj "(string \<times> jsval) list"

type_synonym args = "string \<rightharpoonup> jsval"

definition get_prop :: "args \<Rightarrow> string \<Rightarrow> jsval" where
  "get_prop a k = (case a k of None \<Rightarrow> JUndefined | Some v \<Rightarrow> v)"

fun truthy :: "jsval \<Rightarrow> bool" where
  "truthy JUndefined = False"
| "truthy JNull = False"
| "truthy (JBool b) = b"
| "truthy (JNum s) = (s \<noteq> ''0'' \<and> s \<noteq> ''NaN'')"
| "truthy (JStr s) = (s \<noteq> [])"
| "truthy (JArr vs) = True"
| "truthy (JObj kvs) = True"

text \<open>A thrown value: an error object with its \<open>name\<close>, its \<open>message\<close> and, for the
  rejection of a child process, the captured \<open>stderr\<close>.\<close>

datatype js_error = JsError (err_name: string) (err_message: string) (err_stderr: "string option")

abbreviation Error :: "string \<Rightarrow> js_error" where
  "Error msg \<equiv> JsError ''Error'' msg None"

abbreviation TypeError :: "string \<Rightarrow> js_error" where
  "TypeError msg \<equiv> JsError ''TypeError'' msg None"

text \<open>\<open>`${error}`\<close>, that is \<open>Error.prototype.toString\<close>.\<close>

definition error_to_string :: "js_error \<Rightarrow> string" where
  "error_to_string e =
     (if err_name e = [] then err_message e
      else if err_message e = [] then err_name e
      else err_name e @ '': '' @ err_message e)"

text \<open>
  \<open>`${v}`\<close> for a JSON value. An array joins its elements with commas (\<open>null\<close> elements
  render empty); a plain object renders as \<open>[object Object]\<close> unless it carries an own
  property \<open>toString\<close>, which is not callable and makes the conversion throw.
\<close>

fun js_to_string :: "jsval \<Rightarrow> js_error + string"
  and js_join :: "jsval list \<Rightarrow> js_error + string" where
  "js_to_string JUndefined = Inr ''undefined''"
| "js_to_string JNull = Inr ''null''"
| "js_to_string (JBool b) = Inr (if b then ''true'' else ''false'')"
| "js_to_string (JNum s) = Inr s"
| "js_to_string (JStr s) = Inr s"
| "js_to_string (JArr vs) = js_join vs"
| "js_to_string (JObj kvs) =
     (if map_of kvs ''toString'' \<noteq> None
      then Inl (TypeError ''Cannot convert object to primitive value'')
      else Inr ''[object Object]'')"
| "js_join [] = Inr []"
| "js_join (v # vs) =
     (case (if v = JUndefined \<or> v = JNull then Inr [] else js_to_string v) of
        Inl e \<Rightarrow> Inl e
      | Inr s \<Rightarrow>
          (if vs = [] then Inr s
           else (case js_join vs of Inl e \<Rightarrow> Inl e | Inr t \<Rightarrow> Inr (s @ '','' @ t))))"

text \<open>\<open>a || b\<close> on strings: the empty string is falsy.\<close>

definition or_else :: "string \<Rightarrow> string \<Rightarrow> string" where
  "or_else a b = (if a \<noteq> [] then a else b)"

section \<open>The environment and its adapters\<close>

text \<open>
  Everything outside the repository is a field of the environment: the home directory
  that \<open>homedir()\<close> returns, the two adapters (\<open>readFile\<close> of \<open>fs/promises\<close> and the
  promisified \<open>exec\<close> of \<open>child_process\<close>) and the library functions \<open>path.join\<close> and
  \<open>JSON.stringify(v, null, 2)\<close>. An adapter answers as a function of the adapter calls made
  so far, so that files and processes may change between two calls. \<open>path.join\<close> rejects
  an argument that is not a string with the error \<open>invalid_arg\<close>.
\<close>

datatype event = ReadFile jsval | Exec string

record env =
  homedir :: string
  readFile :: "event list \<Rightarrow> jsval \<Rightarrow> js_error + string"
  exec :: "event list \<Rightarrow> string \<Rightarrow> js_error + (string \<times> string)"
  path_join :: "string list \<Rightarrow> string"
  invalid_arg :: "jsval \<Rightarrow> js_error"
  json_stringify :: "jsval \<Rightarrow> string"

text \<open>A computation takes the trace of adapter calls and returns a value or a thrown
  error, with the extended trace.\<close>

type_synonym 'a eff = "event list \<Rightarrow> (js_error + 'a) \<times> event list"

definition retE :: "'a \<Rightarrow> 'a eff" where
  "retE x tr = (Inr x, tr)"

definition throwE :: "js_error \<Rightarrow> 'a eff" where
  "throwE e tr = (Inl e, tr)"

definition liftE :: "js_error + 'a \<Rightarrow> 'a eff" where
  "liftE r tr = (r, tr)"

definition bindE :: "'a eff \<Rightarrow> ('a \<Rightarrow> 'b eff) \<Rightarrow> 'b eff" where
  "bindE m f tr = (case m tr of (Inl e, tr') \<Rightarrow> (Inl e, tr') | (Inr x, tr') \<Rightarrow> f x tr')"

text \<open>\<open>try { m } catch (error) { h error }\<close>\<close>

definition tryE :: "'a eff \<Rightarrow> (js_error \<Rightarrow> 'a eff) \<Rightarrow> 'a eff" where
  "tryE m h tr = (case m tr of (Inl e, tr') \<Rightarrow> h e tr' | (Inr x, tr') \<Rightarrow> (Inr x, tr'))"

definition do_readFile :: "env \<Rightarrow> jsval \<Rightarrow> string eff" where
  "do_readFile ev p tr = (readFile ev tr p, tr @ [ReadFile p])"

definition execAsync :: "env \<Rightarrow> string \<Rightarrow> (string \<times> string) eff" where
  "execAsync ev cmd tr = (exec ev tr cmd, tr @ [Exec cmd])"


text \<open>\<open>path.join(a, b)\<close> on values: every argument is validated to be a string first.\<close>

fun strings_of :: "env \<Rightarrow> jsval list \<Rightarrow> js_error + string list" where
  "strings_of ev [] = Inr []"
| "strings_of ev (JStr s # vs) =
     (case strings_of ev vs of Inl e \<Rightarrow> Inl e | Inr ss \<Rightarrow> Inr (s # ss))"
| "strings_of ev (v # vs) = Inl (invalid_arg ev v)"

definition join_js :: "env \<Rightarrow> jsval list \<Rightarrow> js_error + string" where
  "join_js ev vs = (case strings_of ev vs of Inl e \<Rightarrow> Inl e | Inr ss \<Rightarrow> Inr (path_join ev ss))"

section \<open>The tool catalog\<close>

record property =
  prop_name :: string
  prop_type :: string
  prop_description :: string
  prop_enum :: "string list option"

text \<open>An \<open>inputSchema\<close> is always of type \<open>object\<close>; a schema without a \<open>required\<close> list
  has the empty one.\<close>

record tool =
  tool_name :: string
  tool_description :: string
  properties :: "property list"
  required :: "string list"

definition getTools :: "tool list" where
  "getTools = [
    \<lparr>tool_name = ''fvwm_execute'',
     tool_description = ''Execute an FVWM command using FvwmCommand'',
     properties = [
       \<lparr>prop_name = ''command'', prop_type = ''string'',
        prop_description = ''The FVWM command to execute (e.g., 'Restart', 'Move 100p 100p')'',
        prop_enum = None\<rparr>],
     required = [''command'']\<rparr>,
    \<lparr>tool_name = ''fvwm_get_window_info'',
     tool_description = ''Get detailed information about a specific window or all windows'',
     properties = [
       \<lparr>prop_name = ''window_id'', prop_type = ''string'',
        prop_description = ''Window ID in hex format (e.g., '0x9200005'). If not provided, returns all windows.'',
        prop_enum = None\<rparr>],
     required = []\<rparr>,
    \<lparr>tool_name = ''fvwm_get_monitor_layout'',
     tool_description = ''Get current monitor layout and geometry from xrandr'',
     properties = [],
     required = []\<rparr>,
    \<lparr>tool_name = ''fvwm_test_function'',
     tool_description = ''Check if a specific FVWM function exists in the configuration'',
     properties = [
       \<lparr>prop_name = ''function_name'', prop_type = ''string'',
        prop_description = ''Name of the FVWM function to check (e.g., 'SmartTileLeft')'',
        prop_enum = None\<rparr>],
     required = [''function_name'']\<rparr>,
    \<lparr>tool_name = ''fvwm_restart'',
     tool_description = ''Restart FVWM3 to apply configuration changes'',
     properties = [],
     required = []\<rparr>,
    \<lparr>tool_name = ''fvwm_validate_config'',
     tool_description = ''Validate FVWM3 configuration syntax without restarting'',
     properties = [
       \<lparr>prop_name = ''config_path'', prop_type = ''string'',
        prop_description = ''Path to config file to validate. Defaults to ~/.fvwm/config'',
        prop_enum = None\<rparr>],
     required = []\<rparr>,
    \<lparr>tool_name = ''fvwm_get_keybindings'',
     tool_description = ''List all keyboard bindings from the configuration'',
     properties = [
       \<lparr>prop_name = ''filter'', prop_type = ''string'',
        prop_description = ''Optional filter string to search for specific bindings'',
        prop_enum = None\<rparr>],
     required = []\<rparr>,
    \<lparr>tool_name = ''smart_tile_debug'',
     tool_description = ''View the smart tiling debug log (last N lines)'',
     properties = [
       \<lparr>prop_name = ''lines'', prop_type = ''number'',
        prop_description = ''Number of lines to retrieve from the end of the log. Default: 50'',
        prop_enum = None\<rparr>],
     required = []\<rparr>,
    \<lparr>tool_name = ''smart_tile_state'',
     tool_description = ''View or clear smart tiling state for windows'',
     properties = [
       \<lparr>prop_name = ''action'', prop_type = ''string'',
        prop_description = ''Action to perform: 'view' to see states, 'clear' to reset all states'',
        prop_enum = Some [''view'', ''clear'']\<rparr>,
       \<lparr>prop_name = ''window_id'', prop_type = ''string'',
        prop_description = ''Optional window ID to view/clear specific window state'',
        prop_enum = None\<rparr>],
     required = [''action'']\<rparr>,
    \<lparr>tool_name = ''fvwm_get_desktop_info'',
     tool_description = ''Get information about the current desktop and page'',
     properties = [],
     required = []\<rparr>]"

section \<open>Tool execution\<close>

record content_block =
  block_type :: string
  block_text :: string

text \<open>The optional field \<open>isError\<close> is \<open>None\<close> when the object literal does not set it.\<close>

record tool_result =
  content :: "content_block list"
  isError :: "bool option"

definition text_result :: "string \<Rightarrow> tool_result" where
  "text_result t = \<lparr>content = [\<lparr>block_type = ''text'', block_text = t\<rparr>], isError = None\<rparr>"

text \<open>\<open>command.replace(/"/g, '\\"')\<close>: only a string has the method.\<close>

definition escape_quotes :: "string \<Rightarrow> string" where
  "escape_quotes s = concat (map (\<lambda>c. if c = dq then [bsl, dq] else [c]) s)"

fun replace_quotes :: "jsval \<Rightarrow> js_error + string" where
  "replace_quotes (JStr s) = Inr (escape_quotes s)"
| "replace_quotes JUndefined =
     Inl (TypeError ''Cannot read properties of undefined (reading 'replace')'')"
| "replace_quotes JNull =
     Inl (TypeError ''Cannot read properties of null (reading 'replace')'')"
| "replace_quotes v = Inl (TypeError ''command.replace is not a function'')"

text \<open>\<open>error.stderr && error.stderr.trim()\<close>\<close>

definition has_stderr :: "js_error \<Rightarrow> bool" where
  "has_stderr e = (case err_stderr e of None \<Rightarrow> False | Some s \<Rightarrow> s \<noteq> [] \<and> trim s \<noteq> [])"

definition case_fvwm_execute :: "env \<Rightarrow> args \<Rightarrow> tool_result eff" where
  "case_fvwm_execute ev a =
     (let command = get_prop a ''command'' in
      tryE
        (bindE (liftE (replace_quotes command)) (\<lambda>c.
         bindE (execAsync ev (''FvwmCommand '' @ [dq] @ c @ [dq])) (\<lambda>(stdout, stderr).
         retE (text_result (or_else stdout (or_else stderr ''Command executed successfully''))))))
        (\<lambda>error.
           if has_stderr error then throwE error
           else retE (text_result ''Command executed (no output)'')))"

definition case_fvwm_get_window_info :: "env \<Rightarrow> args \<Rightarrow> tool_result eff" where
  "case_fvwm_get_window_info ev a =
     (let window_id = get_prop a ''window_id'' in
      bindE
        (if truthy window_id
         then bindE (liftE (js_to_string window_id)) (\<lambda>w.
              retE (''FvwmCommand '' @ [dq] @ ''WindowId '' @ w @ '' Echo id=$[w.id] name=''
                    @ [bsl, dq] @ ''$[w.name]'' @ [bsl, dq]
                    @ '' class=$[w.class] desk=$[w.desk] x=$[w.x] y=$[w.y] w=$[w.width] h=$[w.height]''
                    @ [dq]))
         else retE (''FvwmCommand 'All (CurrentPage) Echo id=$[w.id] name='' @ [dq] @ ''$[w.name]''
                    @ [dq]
                    @ '' class=$[w.class] desk=$[w.desk] x=$[w.x] y=$[w.y] w=$[w.width] h=$[w.height]''
                    @ [CHR 0x27]))
        (\<lambda>cmd.
         bindE (execAsync ev cmd) (\<lambda>(stdout, stderr).
         retE (text_result (or_else stdout ''No windows found'')))))"

definition case_fvwm_get_monitor_layout :: "env \<Rightarrow> args \<Rightarrow> tool_result eff" where
  "case_fvwm_get_monitor_layout ev a =
     bindE (execAsync ev (''xrandr --query | grep ' connected'' @ [CHR 0x27])) (\<lambda>(stdout, stderr).
     retE (text_result stdout))"

definition case_fvwm_test_function :: "env \<Rightarrow> args \<Rightarrow> tool_result eff" where
  "case_fvwm_test_function ev a =
     (let function_name = get_prop a ''function_name'' in
      bindE (do_readFile ev (JStr (path_join ev [homedir ev, ''.fvwm/config'']))) (\<lambda>config.
      bindE (liftE (js_to_string function_name)) (\<lambda>fn.
      let functionExists = (includes_str config (''DestroyFunc '' @ fn)
                            \<or> includes_str config (''AddToFunc '' @ fn)) in
      retE (text_result
        (if functionExists
         then ''Function ''  @ [CHR 0x27] @ fn @ [CHR 0x27] @ '' exists in configuration''
         else ''Function ''  @ [CHR 0x27] @ fn @ [CHR 0x27] @ '' NOT found in configuration'')))))"

definition case_fvwm_restart :: "env \<Rightarrow> args \<Rightarrow> tool_result eff" where
  "case_fvwm_restart ev a =
     bindE
       (tryE (bindE (execAsync ev (''FvwmCommand '' @ [dq] @ ''Restart'' @ [dq])) (\<lambda>r. retE ()))
             (\<lambda>error. retE ()))
       (\<lambda>u. retE (text_result ''FVWM3 restart command sent''))"

text \<open>The two checks that \<open>fvwm_validate_config\<close> makes on the line at index \<open>idx\<close>:
  an odd number of double quotes, and the regular expression
  \<open>/^(DestroyFun|AddToFun|DestroyMen|AddToMen)\s/\<close> on the trimmed line.\<close>

definition typo_match :: "string \<Rightarrow> bool" where
  "typo_match trimmed =
     (\<exists>p \<in> set [''DestroyFun'', ''AddToFun'', ''DestroyMen'', ''AddToMen''].
        startsWith trimmed p \<and> length p < length trimmed \<and> is_space (trimmed ! length p))"

definition check_line :: "nat \<Rightarrow> string \<Rightarrow> string list" where
  "check_line idx line =
     (let lineNum = idx + 1;
          trimmed = trim line;
          doubleQuotes = length (filter (\<lambda>c. c = dq) trimmed)
      in (if doubleQuotes mod 2 \<noteq> 0
          then [''Line '' @ show_nat lineNum @ '': Unmatched double quotes''] else [])
         @ (if typo_match trimmed
            then [''Line '' @ show_nat lineNum @ '': Possible typo in command''] else []))"

text \<open>\<open>lines.forEach((line, idx) => ...)\<close>, pushing onto \<open>errors\<close>.\<close>

fun check_lines :: "nat \<Rightarrow> string list \<Rightarrow> string list" where
  "check_lines idx [] = []"
| "check_lines idx (line # rest) = check_line idx line @ check_lines (Suc idx) rest"

definition validate_text :: "string \<Rightarrow> string" where
  "validate_text config =
     (let lines = split_on nl config;
          errors = check_lines 0 lines
      in if length errors = 0
         then ''Configuration appears valid ('' @ show_nat (length lines) @ '' lines checked)''
         else ''Found '' @ show_nat (length errors) @ '' potential issues:'' @ [nl]
              @ join_with [nl] errors)"

text \<open>\<open>args.config_path || path.join(home, ".fvwm/config")\<close>\<close>

definition configPath :: "env \<Rightarrow> args \<Rightarrow> jsval" where
  "configPath ev a =
     (if truthy (get_prop a ''config_path'') then get_prop a ''config_path''
      else JStr (path_join ev [homedir ev, ''.fvwm/config'']))"

definition case_fvwm_validate_config :: "env \<Rightarrow> args \<Rightarrow> tool_result eff" where
  "case_fvwm_validate_config ev a =
     tryE
       (bindE (do_readFile ev (configPath ev a)) (\<lambda>config.
        retE (text_result (validate_text config))))
       (\<lambda>error. retE (text_result (''Error reading config: '' @ error_to_string error)))"

definition case_fvwm_get_keybindings :: "env \<Rightarrow> args \<Rightarrow> tool_result eff" where
  "case_fvwm_get_keybindings ev a =
     (let flt = get_prop a ''filter'' in
      bindE (do_readFile ev (JStr (path_join ev [homedir ev, ''.fvwm/config'']))) (\<lambda>config.
      let lines = split_on nl config;
          keys = filter (\<lambda>line. startsWith (trim line) ''Key '') lines
      in bindE
           (if \<not> truthy flt \<or> keys = [] then retE keys
            else bindE (liftE (js_to_string flt)) (\<lambda>f.
                 retE (filter (\<lambda>line. includes_str line f) keys)))
           (\<lambda>bindings.
            if length bindings > 0 then retE (text_result (join_with [nl] bindings))
            else if truthy flt
            then bindE (liftE (js_to_string flt)) (\<lambda>f.
                 retE (text_result (''No keybindings found'' @ '' matching '' @ [CHR 0x27] @ f
                                    @ [CHR 0x27])))
            else retE (text_result (''No keybindings found'' @ [])))))"

definition case_smart_tile_debug :: "env \<Rightarrow> args \<Rightarrow> tool_result eff" where
  "case_smart_tile_debug ev a =
     (let lines = (if truthy (get_prop a ''lines'') then get_prop a ''lines'' else JNum ''50'') in
      tryE
        (bindE (liftE (js_to_string lines)) (\<lambda>n.
         bindE (execAsync ev (''tail -n '' @ n @ '' ''
                              @ path_join ev [homedir ev, ''.fvwm/smart-tile-debug.log'']))
           (\<lambda>(stdout, stderr).
         retE (text_result (or_else stdout ''Debug log is empty'')))))
        (\<lambda>error. retE (text_result ''Debug log not found or empty'')))"

text \<open>The loop of \<open>smart_tile_state\<close> over the listed files, pushing onto \<open>states\<close>.\<close>

fun read_states :: "env \<Rightarrow> string \<Rightarrow> string list \<Rightarrow> string list \<Rightarrow> string list eff" where
  "read_states ev stateDir [] states tr = (Inr states, tr)"
| "read_states ev stateDir (file # rest) states tr =
     (if file \<noteq> []
      then (case do_readFile ev (JStr (path_join ev [stateDir, file])) tr of
              (Inl e, tr') \<Rightarrow> (Inl e, tr')
            | (Inr state, tr') \<Rightarrow>
                read_states ev stateDir rest (states @ [file @ '': '' @ trim state]) tr')
      else read_states ev stateDir rest states tr)"

definition case_smart_tile_state :: "env \<Rightarrow> args \<Rightarrow> tool_result eff" where
  "case_smart_tile_state ev a =
     (let action = get_prop a ''action'';
          window_id = get_prop a ''window_id'';
          stateDir = path_join ev [homedir ev, ''.fvwm/tile-state'']
      in
      if action = JStr ''view'' then
        tryE
          (if truthy window_id then
             bindE (liftE (join_js ev [JStr stateDir, window_id])) (\<lambda>p.
             bindE (do_readFile ev (JStr p)) (\<lambda>state.
             bindE (liftE (js_to_string window_id)) (\<lambda>w.
             retE (text_result (''Window '' @ w @ '': '' @ state)))))
           else
             bindE (execAsync ev (''ls -1 '' @ stateDir @ '' 2>/dev/null || echo '' @ [dq, dq]))
               (\<lambda>(files, stderr).
             if trim files = [] then retE (text_result ''No tile states found'')
             else
               bindE (read_states ev stateDir (split_on nl (trim files)) []) (\<lambda>states.
               retE (text_result (join_with [nl] states)))))
          (\<lambda>error. retE (text_result ''No tile states found''))
      else if action = JStr ''clear'' then
        tryE
          (if truthy window_id then
             bindE (liftE (join_js ev [JStr stateDir, window_id])) (\<lambda>p.
             bindE (execAsync ev (''rm -f '' @ p)) (\<lambda>r.
             bindE (liftE (js_to_string window_id)) (\<lambda>w.
             retE (text_result (''Cleared state for window '' @ w)))))
           else
             bindE (execAsync ev (''rm -f '' @ stateDir @ ''/*'')) (\<lambda>r.
             retE (text_result ''Cleared all tile states'')))
          (\<lambda>error. retE (text_result (''Error clearing states: '' @ error_to_string error)))
      else
        bindE (liftE (js_to_string action)) (\<lambda>act.
        throwE (Error (''Unknown action: '' @ act))))"

definition case_fvwm_get_desktop_info :: "env \<Rightarrow> args \<Rightarrow> tool_result eff" where
  "case_fvwm_get_desktop_info ev a =
     bindE (execAsync ev (''FvwmCommand '' @ [dq]
                          @ ''Echo desk=$[desk.n] page=$[page.nx]x$[page.ny] deskname=''
                          @ [bsl, dq] @ ''$[desk.name$[desk.n]]'' @ [bsl, dq] @ [dq]))
       (\<lambda>(stdout, stderr).
     retE (text_result (or_else stdout ''Unable to get desktop info'')))"

text \<open>The \<open>switch\<close> inside the outer \<open>try\<close> of \<open>executeTool\<close>.\<close>

definition executeTool_switch :: "env \<Rightarrow> string \<Rightarrow> args \<Rightarrow> tool_result eff" where
  "executeTool_switch ev name a =
     (if name = ''fvwm_execute'' then case_fvwm_execute ev a
      else if name = ''fvwm_get_window_info'' then case_fvwm_get_window_info ev a
      else if name = ''fvwm_get_monitor_layout'' then case_fvwm_get_monitor_layout ev a
      else if name = ''fvwm_test_function'' then case_fvwm_test_function ev a
      else if name = ''fvwm_restart'' then case_fvwm_restart ev a
      else if name = ''fvwm_validate_config'' then case_fvwm_validate_config ev a
      else if name = ''fvwm_get_keybindings'' then case_fvwm_get_keybindings ev a
      else if name = ''smart_tile_debug'' then case_smart_tile_debug ev a
      else if name = ''smart_tile_state'' then case_smart_tile_state ev a
      else if name = ''fvwm_get_desktop_info'' then case_fvwm_get_desktop_info ev a
      else throwE (Error (''Unknown tool: '' @ name)))"

text \<open>
  \<open>executeTool(name, args)\<close>: the switch, and the outer \<open>catch\<close> that turns whatever was
  thrown into an error envelope. The result is \<open>Inl\<close> if the call throws (the promise
  rejects), \<open>Inr\<close> if it returns; \<open>homedir()\<close> is taken to return.
\<close>

definition executeTool :: "env \<Rightarrow> string \<Rightarrow> args \<Rightarrow> tool_result eff" where
  "executeTool ev name a =
     tryE (executeTool_switch ev name a)
       (\<lambda>error. retE
          \<lparr>content = [\<lparr>block_type = ''text'',
                       block_text = ''Error executing tool '' @ [CHR 0x27] @ name @ [CHR 0x27]
                                    @ '': '' @ error_to_string error\<rparr>],
           isError = Some True\<rparr>)"

section \<open>The resource catalog and resource reads\<close>

record resource =
  uri :: string
  res_name :: string
  res_description :: string
  mimeType :: string

definition getResources :: "resource list" where
  "getResources = [
    \<lparr>uri = ''fvwm://config/main'',
     res_name = ''FVWM3 Main Configuration'',
     res_description = ''The complete FVWM3 configuration file (~/.fvwm/config)'',
     mimeType = ''text/plain''\<rparr>,
    \<lparr>uri = ''fvwm://config/repo'',
     res_name = ''FVWM3 Repository Configuration'',
     res_description = ''Version-controlled configuration from desktop-settings repo'',
     mimeType = ''text/plain''\<rparr>,
    \<lparr>uri = ''fvwm://docs/claude'',
     res_name = ''CLAUDE.md Architecture Documentation'',
     res_description = ''Complete architecture documentation for FVWM3 setup'',
     mimeType = ''text/markdown''\<rparr>,
    \<lparr>uri = ''fvwm://docs/shortcuts'',
     res_name = ''Movement Shortcuts Documentation'',
     res_description = ''Spanish documentation of all movement shortcuts (ATAJOS-MOVIMIENTO.md)'',
     mimeType = ''text/markdown''\<rparr>,
    \<lparr>uri = ''fvwm://docs/smart-tiling'',
     res_name = ''Smart Tiling Technical Documentation'',
     res_description = ''Complete technical documentation of smart tiling system'',
     mimeType = ''text/markdown''\<rparr>,
    \<lparr>uri = ''fvwm://docs/readme'',
     res_name = ''FVWM3 Configuration README'',
     res_description = ''User-facing documentation and command reference'',
     mimeType = ''text/markdown''\<rparr>,
    \<lparr>uri = ''fvwm://scripts/smart-tile'',
     res_name = ''Smart Tiling Script'',
     res_description = ''Main smart tiling implementation script'',
     mimeType = ''text/x-shellscript''\<rparr>,
    \<lparr>uri = ''fvwm://scripts/maximize-monitor'',
     res_name = ''Maximize Current Monitor Script'',
     res_description = ''Monitor-aware maximize script'',
     mimeType = ''text/x-shellscript''\<rparr>,
    \<lparr>uri = ''fvwm://scripts/monitor-setup'',
     res_name = ''Monitor Setup Script'',
     res_description = ''Multi-monitor configuration script'',
     mimeType = ''text/x-shellscript''\<rparr>,
    \<lparr>uri = ''fvwm://scripts/toggle-keyboard'',
     res_name = ''Keyboard Layout Toggle Script'',
     res_description = ''Toggle between US and LATAM keyboard layouts'',
     mimeType = ''text/x-shellscript''\<rparr>,
    \<lparr>uri = ''fvwm://state/monitors'',
     res_name = ''Current Monitor Layout'',
     res_description = ''Current monitor configuration from xrandr'',
     mimeType = ''text/plain''\<rparr>,
    \<lparr>uri = ''fvwm://state/windows'',
     res_name = ''Active Windows'',
     res_description = ''List of all active windows with geometry'',
     mimeType = ''application/json''\<rparr>,
    \<lparr>uri = ''fvwm://state/current-desktop'',
     res_name = ''Current Desktop State'',
     res_description = ''Current desktop and page information'',
     mimeType = ''application/json''\<rparr>,
    \<lparr>uri = ''fvwm://state/tile-states'',
     res_name = ''Tile State Files'',
     res_description = ''Current smart tiling state for all windows'',
     mimeType = ''application/json''\<rparr>,
    \<lparr>uri = ''fvwm://logs/smart-tile'',
     res_name = ''Smart Tiling Debug Log'',
     res_description = ''Debug log from smart tiling operations'',
     mimeType = ''text/plain''\<rparr>]"

record resource_content =
  content_uri :: string
  content_mimeType :: string
  content_text :: string

record read_result =
  contents :: "resource_content list"

definition one_content :: "string \<Rightarrow> string \<Rightarrow> string \<Rightarrow> read_result" where
  "one_content u m t =
     \<lparr>contents = [\<lparr>content_uri = u, content_mimeType = m, content_text = t\<rparr>]\<rparr>"

text \<open>The shape shared by the ten file resources: read the file below the home
  directory and return its text under the given MIME type.\<close>

definition file_resource :: "env \<Rightarrow> string \<Rightarrow> string \<Rightarrow> string \<Rightarrow> read_result eff" where
  "file_resource ev u rel m =
     bindE (do_readFile ev (JStr (path_join ev [homedir ev, rel]))) (\<lambda>content.
     retE (one_content u m content))"

text \<open>\<open>states[file] = v\<close> for a string \<open>v\<close>, on the object under construction: the list
  holds its own properties in the order of their creation. Assigning under the name
  \<open>__proto__\<close> runs the setter inherited from \<open>Object.prototype\<close>, which ignores a value
  that is not an object, so no property is created.\<close>

fun obj_put :: "(string \<times> jsval) list \<Rightarrow> string \<Rightarrow> jsval \<Rightarrow> (string \<times> jsval) list" where
  "obj_put [] k v = [(k, v)]"
| "obj_put ((k', v') # kvs) k v =
     (if k' = k then (k, v) # kvs else (k', v') # obj_put kvs k v)"

definition obj_set :: "(string \<times> jsval) list \<Rightarrow> string \<Rightarrow> string \<Rightarrow> (string \<times> jsval) list" where
  "obj_set kvs k v = (if k = ''__proto__'' then kvs else obj_put kvs k (JStr v))"

text \<open>
  The order in which the own properties of an object are enumerated, and so serialised:
  first the names that are array indices (canonical decimal numerals up to \<open>2^32 - 2\<close>) in
  ascending numeric order, then the other names in the order of their creation.
\<close>

definition index_value :: "string \<Rightarrow> nat" where
  "index_value s = foldl (\<lambda>n c. 10 * n + (of_char c - 48)) 0 s"

definition is_array_index :: "string \<Rightarrow> bool" where
  "is_array_index s =
     (s \<noteq> [] \<and> (\<forall>c \<in> set s. c \<in> set ''0123456789'')
      \<and> (s = ''0'' \<or> hd s \<noteq> CHR ''0'') \<and> index_value s \<le> 4294967294)"

definition own_properties :: "(string \<times> jsval) list \<Rightarrow> (string \<times> jsval) list" where
  "own_properties kvs =
     sort_key (\<lambda>kv. index_value (fst kv)) (filter (\<lambda>kv. is_array_index (fst kv)) kvs)
     @ filter (\<lambda>kv. \<not> is_array_index (fst kv)) kvs"

text \<open>The loop of the resource \<open>fvwm://state/tile-states\<close> over the listed files.\<close>

fun read_tile_states ::
  "env \<Rightarrow> string \<Rightarrow> string list \<Rightarrow> (string \<times> jsval) list \<Rightarrow> (string \<times> jsval) list eff" where
  "read_tile_states ev tileStateDir [] states tr = (Inr states, tr)"
| "read_tile_states ev tileStateDir (file # rest) states tr =
     (if file \<noteq> []
      then (case do_readFile ev (JStr (path_join ev [tileStateDir, file])) tr of
              (Inl e, tr') \<Rightarrow> (Inl e, tr')
            | (Inr stateContent, tr') \<Rightarrow>
                read_tile_states ev tileStateDir rest
                  (obj_set states file (trim stateContent)) tr')
      else read_tile_states ev tileStateDir rest states tr)"

definition case_tile_states :: "env \<Rightarrow> string \<Rightarrow> read_result eff" where
  "case_tile_states ev u =
     (let tileStateDir = path_join ev [homedir ev, ''.fvwm/tile-state''] in
      tryE
        (bindE (execAsync ev (''ls '' @ tileStateDir)) (\<lambda>(files, stderr).
         bindE (read_tile_states ev tileStateDir (split_on nl (trim files)) []) (\<lambda>states.
         retE (one_content u ''application/json''
                 (json_stringify ev (JObj (own_properties states)))))))
        (\<lambda>error. retE (one_content u ''application/json'' (json_stringify ev (JObj [])))))"

definition case_logs_smart_tile :: "env \<Rightarrow> string \<Rightarrow> read_result eff" where
  "case_logs_smart_tile ev u =
     bindE
       (tryE (do_readFile ev (JStr (path_join ev [homedir ev, ''.fvwm/smart-tile-debug.log''])))
             (\<lambda>error. retE ''No debug log found''))
       (\<lambda>content. retE (one_content u ''text/plain'' content))"

definition readResource_switch :: "env \<Rightarrow> string \<Rightarrow> read_result eff" where
  "readResource_switch ev u =
     (if u = ''fvwm://config/main'' then file_resource ev u ''.fvwm/config'' ''text/plain''
      else if u = ''fvwm://config/repo''
      then file_resource ev u ''repo/utils/desktop-settings/fvwm3rc/config'' ''text/plain''
      else if u = ''fvwm://docs/claude''
      then file_resource ev u ''repo/utils/desktop-settings/CLAUDE.md'' ''text/markdown''
      else if u = ''fvwm://docs/shortcuts''
      then file_resource ev u ''.fvwm/ATAJOS-MOVIMIENTO.md'' ''text/markdown''
      else if u = ''fvwm://docs/smart-tiling''
      then file_resource ev u
             ''repo/utils/desktop-settings/fvwm3rc/scripts/README-SMART-TILING.md'' ''text/markdown''
      else if u = ''fvwm://docs/readme''
      then file_resource ev u ''repo/utils/desktop-settings/fvwm3rc/README.md'' ''text/markdown''
      else if u = ''fvwm://scripts/smart-tile''
      then file_resource ev u ''.fvwm/scripts/smart-tile.sh'' ''text/x-shellscript''
      else if u = ''fvwm://scripts/maximize-monitor''
      then file_resource ev u ''.fvwm/scripts/maximize-current-monitor.sh'' ''text/x-shellscript''
      else if u = ''fvwm://scripts/monitor-setup''
      then file_resource ev u ''.fvwm/scripts/monitor-setup.sh'' ''text/x-shellscript''
      else if u = ''fvwm://scripts/toggle-keyboard''
      then file_resource ev u ''.fvwm/scripts/toggle-keyboard-layout.sh'' ''text/x-shellscript''
      else if u = ''fvwm://state/monitors''
      then bindE (execAsync ev ''xrandr --query'') (\<lambda>(xrandrOutput, stderr).
           retE (one_content u ''text/plain'' xrandrOutput))
      else if u = ''fvwm://state/windows''
      then bindE (execAsync ev (''FvwmCommand '' @ [dq]
                   @ ''All (CurrentPage) Echo $[w.id] $[w.name] $[w.x] $[w.y] $[w.width] $[w.height]''
                   @ [dq])) (\<lambda>(windowList, stderr).
           retE (one_content u ''application/json''
                   (json_stringify ev
                      (JObj [(''windows'', JArr (map JStr (split_on nl (trim windowList))))]))))
      else if u = ''fvwm://state/current-desktop''
      then bindE (execAsync ev (''FvwmCommand '' @ [dq]
                   @ ''Echo desk=$[desk.n] page=$[page.nx]x$[page.ny]'' @ [dq]))
             (\<lambda>(deskInfo, stderr).
           retE (one_content u ''application/json''
                   (json_stringify ev (JObj [(''state'', JStr (trim deskInfo))]))))
      else if u = ''fvwm://state/tile-states'' then case_tile_states ev u
      else if u = ''fvwm://logs/smart-tile'' then case_logs_smart_tile ev u
      else throwE (Error (''Unknown resource URI: '' @ u)))"

text \<open>\<open>readResource(uri)\<close>: the switch, and the \<open>catch\<close> that wraps whatever was thrown
  (the unknown-URI error included) and throws again.\<close>

definition readResource :: "env \<Rightarrow> string \<Rightarrow> read_result eff" where
  "readResource ev u =
     tryE (readResource_switch ev u)
       (\<lambda>error. throwE (Error (''Failed to read resource '' @ u @ '': ''
                                @ error_to_string error)))"


section \<open>The prompt catalog and prompt rendering\<close>

record prompt_argument =
  arg_name :: string
  arg_description :: string
  arg_required :: bool

record prompt =
  prompt_name :: string
  prompt_description :: string
  arguments :: "prompt_argument list"

definition getPrompts :: "prompt list" where
  "getPrompts = [
    \<lparr>prompt_name = ''create-window-function'',
     prompt_description = ''Generate a new FVWM window manipulation function'',
     arguments = [
       \<lparr>arg_name = ''function_name'',
        arg_description = ''Name for the new function (e.g., '' @ [CHR 0x27] @ ''MoveToCenterAndResize'' @ [CHR 0x27] @ '')'',
        arg_required = True\<rparr>,
       \<lparr>arg_name = ''description'',
        arg_description = ''What the function should do'',
        arg_required = True\<rparr>]\<rparr>,
    \<lparr>prompt_name = ''add-keybinding'',
     prompt_description = ''Generate a keybinding with conflict checking'',
     arguments = [
       \<lparr>arg_name = ''key_combo'',
        arg_description = ''Key combination (e.g., '' @ [CHR 0x27] @ ''Super_L+m'' @ [CHR 0x27] @ '', '' @ [CHR 0x27] @ ''Alt+Shift+w'' @ [CHR 0x27] @ '')'',
        arg_required = True\<rparr>,
       \<lparr>arg_name = ''action'',
        arg_description = ''What the keybinding should do'',
        arg_required = True\<rparr>,
       \<lparr>arg_name = ''context'',
        arg_description = ''Context where binding applies (default: '' @ [CHR 0x27] @ ''A'' @ [CHR 0x27] @ '' for all)'',
        arg_required = False\<rparr>]\<rparr>,
    \<lparr>prompt_name = ''create-tiling-script'',
     prompt_description = ''Generate a bash script for window tiling operations'',
     arguments = [
       \<lparr>arg_name = ''script_name'',
        arg_description = ''Name for the script (e.g., '' @ [CHR 0x27] @ ''quarter-tile'' @ [CHR 0x27] @ '')'',
        arg_required = True\<rparr>,
       \<lparr>arg_name = ''tiling_behavior'',
        arg_description = ''Describe the tiling behavior (e.g., '' @ [CHR 0x27] @ ''tile to top-left quarter'' @ [CHR 0x27] @ '')'',
        arg_required = True\<rparr>]\<rparr>,
    \<lparr>prompt_name = ''debug-fvwm-issue'',
     prompt_description = ''Guide for debugging FVWM configuration issues'',
     arguments = [
       \<lparr>arg_name = ''issue_description'',
        arg_description = ''Describe the problem you'' @ [CHR 0x27] @ ''re experiencing'',
        arg_required = True\<rparr>]\<rparr>,
    \<lparr>prompt_name = ''create-menu'',
     prompt_description = ''Generate an FVWM menu configuration'',
     arguments = [
       \<lparr>arg_name = ''menu_name'',
        arg_description = ''Name for the menu (e.g., '' @ [CHR 0x27] @ ''WindowOpsMenu'' @ [CHR 0x27] @ '')'',
        arg_required = True\<rparr>,
       \<lparr>arg_name = ''menu_items'',
        arg_description = ''Comma-separated list of menu items'',
        arg_required = True\<rparr>]\<rparr>]"

text \<open>The five templates, as functions of the strings substituted into them.\<close>

definition create_window_function_text :: "string \<Rightarrow> string \<Rightarrow> string" where
  "create_window_function_text function_name description =
     join_with [nl]
     [''Create a new FVWM3 window function called '' @ [dq] @ function_name @ [dq] @ '' that '' @ description @ ''.'',
      [],
      ''The function should:'',
      ''1. Follow FVWM3 best practices'',
      ''2. Use DestroyFunc to allow reloading'',
      ''3. Use proper FVWM expansion variables (e.g., $[w.id], $[w.x], $[w.width])'',
      ''4. Include comments explaining the logic'',
      ''5. Handle edge cases appropriately'',
      [],
      ''Current FVWM3 setup context:'',
      ''- 3 monitors: DP-4 (1920x1080+0+0), HDMI-0 (1920x1080+1920+0), DP-2 (1920x1080+3840+0)'',
      ''- Desktop layout: 4 desktops (Principal, Web, Desarrollo, Media), 2x2 pages each'',
      ''- Panel reserves 120px on right edge (EwmhBaseStruts 0 120 0 0)'',
      ''- Focus policy: ClickToFocus'',
      [],
      ''Provide the complete function definition ready to be added to ~/.fvwm/config.'']"

definition add_keybinding_text :: "string \<Rightarrow> string \<Rightarrow> string \<Rightarrow> string" where
  "add_keybinding_text key_combo action context =
     join_with [nl]
     [''Create a keybinding for '' @ key_combo @ '' that '' @ action @ ''.'',
      [],
      ''Requirements:'',
      ''1. Check for conflicts with existing keybindings in the configuration'',
      ''2. Use proper FVWM Key syntax: Key <keyname> <context> <modifiers> <action>'',
      ''3. Context: '' @ context @ '' (R=root window, W=application window, A=all)'',
      ''4. Follow the project'' @ [CHR 0x27] @ ''s keybinding conventions:'',
      ''   - Super (Mod4) for system/WM operations'',
      ''   - Alt for desktop/window movement'',
      ''   - Ctrl+Alt for window positioning (shuffle, grow)'',
      [],
      ''Current keybinding scheme:'',
      ''- Alt+q/w/a/s: Navigate to desktops'',
      ''- Alt+Shift+Q/W/A/S: Send window to desktop'',
      ''- Alt+Ctrl+q/w/a/s: Move window and follow'',
      ''- Super+Enter: Terminal'',
      ''- Super+W: Browser'',
      ''- Super+E: Editor'',
      ''- Super+Space: Toggle keyboard layout'',
      ''- Super+Arrow keys: Smart tiling'',
      [],
      ''Provide:'',
      ''1. The complete Key command'',
      ''2. List of any conflicts found'',
      ''3. Suggested alternatives if conflicts exist'']"

definition create_tiling_script_text :: "string \<Rightarrow> string \<Rightarrow> string" where
  "create_tiling_script_text script_name tiling_behavior =
     join_with [nl]
     [''Create a bash script called '' @ [dq] @ script_name @ ''.sh'' @ [dq] @ '' that '' @ tiling_behavior @ ''.'',
      [],
      ''The script should:'',
      ''1. Follow the smart tiling architecture pattern from smart-tile.sh'',
      ''2. Use xrandr to detect monitor geometry'',
      ''3. Handle multi-monitor setups correctly'',
      ''4. Use FVWM expansion variables passed as arguments'',
      ''5. Generate ResizeMove commands with absolute pixel coordinates'',
      ''6. Include debug logging to ~/.fvwm/smart-tile-debug.log'',
      ''7. Manage state in ~/.fvwm/tile-state/ if needed'',
      [],
      ''Monitor setup:'',
      ''- DP-4: 1920x1080+0+0 (left)'',
      ''- HDMI-0: 1920x1080+1920+0 (center, primary)'',
      ''- DP-2: 1920x1080+3840+0 (right)'',
      [],
      ''Script should accept FVWM variables as arguments:'',
      ''$1 = window_id (e.g., 0x9200005)'',
      ''$2 = window_x'',
      ''$3 = window_y'',
      ''$4 = window_width'',
      ''$5 = window_height'',
      [],
      ''Output should be FVWM commands that can be used with PipeRead.'',
      [],
      ''Provide:'',
      ''1. Complete bash script with shebang'',
      ''2. FVWM function definition to call the script'',
      ''3. Example keybinding'',
      ''4. Usage instructions'']"

definition debug_fvwm_issue_text :: "string \<Rightarrow> string" where
  "debug_fvwm_issue_text issue_description =
     join_with [nl]
     [''I'' @ [CHR 0x27] @ ''m experiencing an issue with FVWM3: '' @ issue_description,
      [],
      ''Please provide a systematic debugging approach:'',
      [],
      ''1. **Information Gathering**'',
      ''   - What FVWM resources to check (fvwm://config/main, fvwm://logs/*, etc.)'',
      ''   - What tools to use (fvwm_get_window_info, fvwm_get_keybindings, etc.)'',
      ''   - What logs to examine'',
      [],
      ''2. **Diagnostic Steps**'',
      ''   - Commands to run for diagnosis'',
      ''   - Expected vs actual output'',
      ''   - Common causes for this type of issue'',
      [],
      ''3. **Testing**'',
      ''   - How to test in isolation'',
      ''   - How to verify the fix'',
      ''   - How to avoid breaking other functionality'',
      [],
      ''4. **Common Solutions**'',
      ''   - Based on similar issues in FVWM3'',
      ''   - Configuration fixes'',
      ''   - Workarounds if no direct fix exists'',
      [],
      ''Current setup context:'',
      ''- FVWM3 version: 1.1.5'',
      ''- 3 monitors, 4 desktops, ClickToFocus'',
      ''- Smart tiling system installed'',
      ''- Custom keybindings using QWAS scheme'',
      ''- RightPanel on primary monitor'',
      [],
      ''Provide step-by-step debugging instructions.'']"

definition create_menu_intro :: "string \<Rightarrow> string" where
  "create_menu_intro menu_name =
     ''Create an FVWM menu called '' @ [dq] @ menu_name @ [dq] @ '' with the following items:''"

definition create_menu_rest :: "string list" where
  "create_menu_rest =
     [[],
      ''The menu should:'',
      ''1. Use DestroyMenu to allow reloading'',
      ''2. Follow the project'' @ [CHR 0x27] @ ''s color scheme (Dracula/Nord inspired dark theme):'',
      ''   - Colorset 0: Background (#282a36)'',
      ''   - Colorset 1: Inactive elements (#44475a)'',
      ''   - Colorset 2: Active highlights (#8be9fd)'',
      ''3. Include appropriate icons if available'',
      ''4. Have proper spacing and separators'',
      ''5. Use meaningful shortcuts/accelerators'',
      [],
      ''Menu syntax:'',
      ''DestroyMenu <menu_name>'',
      ''AddToMenu <menu_name> '' @ [dq] @ ''Title'' @ [dq] @ '' Title'',
      ''+ '' @ [dq] @ ''Item Text'' @ [dq] @ '' Action'',
      ''+ '' @ [dq] @ [dq] @ '' Nop  # Separator'',
      [],
      ''Provide:'',
      ''1. Complete menu definition'',
      ''2. Suggested keybinding to open the menu'',
      ''3. Example of how to add it to the root menu'',
      ''4. Usage notes'']"

record prompt_message =
  role :: string
  message_content :: content_block

record prompt_result =
  messages :: "prompt_message list"

definition user_message :: "string \<Rightarrow> prompt_result" where
  "user_message t =
     \<lparr>messages = [\<lparr>role = ''user'',
                    message_content = \<lparr>block_type = ''text'', block_text = t\<rparr>\<rparr>]\<rparr>"

definition bindS :: "js_error + 'a \<Rightarrow> ('a \<Rightarrow> js_error + 'b) \<Rightarrow> js_error + 'b" where
  "bindS r f = (case r of Inl e \<Rightarrow> Inl e | Inr x \<Rightarrow> f x)"

text \<open>\<open>const { k, ... } = args\<close>: the prompt handler passes \<open>request.params.arguments\<close>
  on as it is, so \<open>args\<close> may be undefined (\<open>None\<close>), and destructuring it throws.\<close>

definition destructure :: "args option \<Rightarrow> string \<Rightarrow> js_error + args" where
  "destructure a k =
     (case a of
        None \<Rightarrow> Inl (TypeError (''Cannot destructure property '' @ [CHR 0x27] @ k @ [CHR 0x27]
                                 @ '' of '' @ [CHR 0x27] @ ''args'' @ [CHR 0x27]
                                 @ '' as it is undefined.''))
      | Some m \<Rightarrow> Inr m)"

text \<open>\<open>menu_items.split(",")\<close>: only a string has the method.\<close>

fun split_items :: "jsval \<Rightarrow> js_error + string list" where
  "split_items (JStr s) = Inr (split_on (CHR '','') s)"
| "split_items JUndefined =
     Inl (TypeError (''Cannot read properties of undefined (reading '' @ [CHR 0x27] @ ''split''
                     @ [CHR 0x27] @ '')''))"
| "split_items JNull =
     Inl (TypeError (''Cannot read properties of null (reading '' @ [CHR 0x27] @ ''split''
                     @ [CHR 0x27] @ '')''))"
| "split_items v = Inl (TypeError ''menu_items.split is not a function'')"

text \<open>\<open>items.map((item, idx) => `${idx + 1}. ${item}`)\<close>\<close>

fun number_items :: "nat \<Rightarrow> string list \<Rightarrow> string list" where
  "number_items idx [] = []"
| "number_items idx (item # rest) =
     (show_nat (idx + 1) @ ''. '' @ item) # number_items (Suc idx) rest"

definition create_menu_text :: "string \<Rightarrow> string list \<Rightarrow> string" where
  "create_menu_text menu_name items =
     create_menu_intro menu_name @ [nl] @ join_with [nl] (number_items 0 items) @ [nl]
     @ join_with [nl] create_menu_rest"

text \<open>\<open>getPrompt(name, args)\<close>: nothing is caught, whatever is thrown propagates.\<close>

definition getPrompt :: "string \<Rightarrow> args option \<Rightarrow> js_error + prompt_result" where
  "getPrompt name a =
     (if name = ''create-window-function'' then
        bindS (destructure a ''function_name'') (\<lambda>m.
        bindS (js_to_string (get_prop m ''function_name'')) (\<lambda>function_name.
        bindS (js_to_string (get_prop m ''description'')) (\<lambda>description.
        Inr (user_message (create_window_function_text function_name description)))))
      else if name = ''add-keybinding'' then
        bindS (destructure a ''key_combo'') (\<lambda>m.
        let context = (if get_prop m ''context'' = JUndefined then JStr ''A''
                       else get_prop m ''context'') in
        bindS (js_to_string (get_prop m ''key_combo'')) (\<lambda>key_combo.
        bindS (js_to_string (get_prop m ''action'')) (\<lambda>action.
        bindS (js_to_string context) (\<lambda>ctx.
        Inr (user_message (add_keybinding_text key_combo action ctx))))))
      else if name = ''create-tiling-script'' then
        bindS (destructure a ''script_name'') (\<lambda>m.
        bindS (js_to_string (get_prop m ''script_name'')) (\<lambda>script_name.
        bindS (js_to_string (get_prop m ''tiling_behavior'')) (\<lambda>tiling_behavior.
        Inr (user_message (create_tiling_script_text script_name tiling_behavior)))))
      else if name = ''debug-fvwm-issue'' then
        bindS (destructure a ''issue_description'') (\<lambda>m.
        bindS (js_to_string (get_prop m ''issue_description'')) (\<lambda>issue_description.
        Inr (user_message (debug_fvwm_issue_text issue_description))))
      else if name = ''create-menu'' then
        bindS (destructure a ''menu_name'') (\<lambda>m.
        bindS (split_items (get_prop m ''menu_items'')) (\<lambda>pieces.
        let items = map trim pieces in
        bindS (js_to_string (get_prop m ''menu_name'')) (\<lambda>menu_name.
        Inr (user_message (create_menu_text menu_name items)))))
      else Inl (Error (''Unknown prompt: '' @ name)))"

section \<open>A sample environment\<close>

text \<open>
  A concrete environment on which the model is evaluated: the home directory is
  \<open>/home/user\<close>, path segments are joined with a slash, and the two adapters answer as
  the given functions say, whatever was called before.
\<close>

definition sample_env ::
  "(jsval \<Rightarrow> js_error + string) \<Rightarrow> (string \<Rightarrow> js_error + (string \<times> string)) \<Rightarrow> env" where
  "sample_env rf ex =
     \<lparr>homedir = ''/home/user'',
      readFile = (\<lambda>tr. rf),
      exec = (\<lambda>tr. ex),
      path_join = join_with ''/'',
      invalid_arg = (\<lambda>v. JsError ''TypeError [ERR_INVALID_ARG_TYPE]''
                             (''The '' @ [dq] @ ''path'' @ [dq] @ '' argument must be of type string.'')
                             None),
      json_stringify = (\<lambda>v. if v = JObj [] then ''{}'' else ''{...}'')\<rparr>"

text \<open>An adapter failure: the file does not exist.\<close>

definition enoent :: js_error where
  "enoent = Error ''ENOENT: no such file or directory''"

text \<open>An adapter failure: the child process exits with a non-zero code and the given
  output on \<open>stderr\<close>.\<close>

definition command_failed :: "string \<Rightarrow> js_error" where
  "command_failed err = JsError ''Error'' ''Command failed'' (Some err)"

section \<open>Results that carry one text block\<close>

definition one_text :: "tool_result \<Rightarrow> bool" where
  "one_text r = (\<exists>t. content r = [\<lparr>block_type = ''text'', block_text = t\<rparr>])"

definition textual :: "tool_result eff \<Rightarrow> bool" where
  "textual m = (\<forall>tr r tr'. m tr = (Inr r, tr') \<longrightarrow> one_text r)"

section \<open>Catalog integrity\<close>

text \<open>
  Claim C8. In each of the three catalogs the identifying keys are pairwise distinct: the
  \<open>uri\<close> of the resources, the \<open>name\<close> of the tools, the \<open>name\<close> of the prompts.
\<close>

theorem catalog_keys_distinct:
  "distinct (map uri getResources) \<and> distinct (map tool_name getTools)
   \<and> distinct (map prompt_name getPrompts)"
  by (simp add: getResources_def getTools_def getPrompts_def)

section \<open>Unknown identifiers\<close>

text \<open>
  Claim C1. For a tool name that is not in the tool catalog, whatever the arguments,
  \<open>executeTool\<close> returns (it does not throw) an envelope with \<open>isError\<close> set to true
  whose single text block quotes the unknown name; no adapter is called.
\<close>

theorem unknown_tool_envelope:
  assumes "name \<notin> set (map tool_name getTools)"
  shows "executeTool ev name a tr =
           (Inr \<lparr>content = [\<lparr>block_type = ''text'',
                              block_text = ''Error executing tool '' @ [CHR 0x27] @ name @ [CHR 0x27]
                                           @ '': Error: Unknown tool: '' @ name\<rparr>],
                  isError = Some True\<rparr>, tr)"
  using assms
  by (simp add: getTools_def executeTool_def executeTool_switch_def tryE_def throwE_def retE_def
      error_to_string_def)

theorem unknown_tool_envelope_witness:
  "''fvwm_explode'' \<notin> set (map tool_name getTools)
   \<and> executeTool (sample_env (\<lambda>p. Inl enoent) (\<lambda>c. Inl (command_failed ''boom'')))
         ''fvwm_explode'' Map.empty [] =
       (Inr \<lparr>content = [\<lparr>block_type = ''text'',
                          block_text = ''Error executing tool '' @ [CHR 0x27] @ ''fvwm_explode''
                                       @ [CHR 0x27] @ '': Error: Unknown tool: fvwm_explode''\<rparr>],
              isError = Some True\<rparr>, [])"
proof -
  have h: "''fvwm_explode'' \<notin> set (map tool_name getTools)"
    by (simp add: getTools_def)
  show ?thesis
    using h unknown_tool_envelope [OF h, of "sample_env (\<lambda>p. Inl enoent) (\<lambda>c. Inl (command_failed ''boom''))" Map.empty "[]"]
    by simp
qed

text \<open>
  Claim C4. For a prompt name that is not in the prompt catalog, whatever the arguments
  (absent arguments included), \<open>getPrompt\<close> throws the error \<open>Unknown prompt: name\<close>;
  nothing catches it. The tool path, given the same kind of name, returns an envelope.
\<close>

theorem unknown_prompt_propagates:
  assumes "name \<notin> set (map prompt_name getPrompts)"
  shows "getPrompt name a = Inl (Error (''Unknown prompt: '' @ name))
         \<and> (name \<notin> set (map tool_name getTools) \<longrightarrow>
              (\<exists>r. fst (executeTool ev name b tr) = Inr r \<and> isError r = Some True))"
  using assms
  by (simp add: getPrompts_def getPrompt_def getTools_def executeTool_def executeTool_switch_def
      tryE_def throwE_def retE_def)

theorem unknown_prompt_propagates_witness:
  "''create-panel'' \<notin> set (map prompt_name getPrompts)
   \<and> ''create-panel'' \<notin> set (map tool_name getTools)
   \<and> getPrompt ''create-panel'' (Some Map.empty) = Inl (Error ''Unknown prompt: create-panel'')
   \<and> getPrompt ''create-panel'' None = Inl (Error ''Unknown prompt: create-panel'')
   \<and> (\<exists>r. fst (executeTool (sample_env (\<lambda>p. Inl enoent) (\<lambda>c. Inl (command_failed ''boom'')))
                     ''create-panel'' Map.empty []) = Inr r \<and> isError r = Some True)"
proof -
  have h: "''create-panel'' \<notin> set (map prompt_name getPrompts)"
    by (simp add: getPrompts_def)
  have t: "''create-panel'' \<notin> set (map tool_name getTools)"
    by (simp add: getTools_def)
  show ?thesis
    using h t
      unknown_prompt_propagates [OF h, of "Some Map.empty"
        "sample_env (\<lambda>p. Inl enoent) (\<lambda>c. Inl (command_failed ''boom''))" Map.empty "[]"]
      unknown_prompt_propagates [OF h, of None]
    by simp
qed

text \<open>
  Claim C5. For a uri that is not in the resource catalog, \<open>readResource\<close> throws an error
  whose message names the unknown uri, and the trace of adapter calls is unchanged: no
  file was read and no process was run.
\<close>

theorem unknown_uri_no_adapter:
  assumes "u \<notin> set (map uri getResources)"
  shows "readResource ev u tr =
           (Inl (Error (''Failed to read resource '' @ u @ '': Error: Unknown resource URI: '' @ u)),
            tr)"
  using assms
  by (simp add: getResources_def readResource_def readResource_switch_def tryE_def throwE_def
      error_to_string_def)

theorem unknown_uri_no_adapter_witness:
  "''fvwm://config/other'' \<notin> set (map uri getResources)
   \<and> readResource (sample_env (\<lambda>p. Inr ''text'') (\<lambda>c. Inr (''out'', []))) ''fvwm://config/other'' [] =
       (Inl (Error (''Failed to read resource fvwm://config/other: Error: Unknown resource URI: fvwm://config/other'')),
        [])"
proof -
  have h: "''fvwm://config/other'' \<notin> set (map uri getResources)"
    by (simp add: getResources_def)
  show ?thesis
    using h unknown_uri_no_adapter [OF h, of "sample_env (\<lambda>p. Inr ''text'') (\<lambda>c. Inr (''out'', []))" "[]"]
    by simp
qed

section \<open>The shape of every tool result\<close>

lemma one_text_text_result: "one_text (text_result t)"
  by (simp add: one_text_def text_result_def)

lemma textual_ret: "textual (retE (text_result t))"
  by (simp add: textual_def retE_def one_text_text_result)

lemma textual_throw: "textual (throwE e)"
  by (simp add: textual_def throwE_def)

lemma textual_bind: "(\<And>x. textual (f x)) \<Longrightarrow> textual (bindE m f)"
  by (auto simp: textual_def bindE_def split: prod.splits sum.splits)

lemma textual_try: "textual m \<Longrightarrow> (\<And>e. textual (h e)) \<Longrightarrow> textual (tryE m h)"
  by (auto simp: textual_def tryE_def split: prod.splits sum.splits)

lemma textual_if: "(c \<Longrightarrow> textual x) \<Longrightarrow> (\<not> c \<Longrightarrow> textual y) \<Longrightarrow> textual (if c then x else y)"
  by simp

lemma textual_prod: "(\<And>x y. textual (f x y)) \<Longrightarrow> textual (case p of (x, y) \<Rightarrow> f x y)"
  by (cases p) simp

lemmas textual_intros =
  textual_try textual_bind textual_if textual_prod textual_ret textual_throw

lemma textual_fvwm_execute: "textual (case_fvwm_execute ev a)"
  unfolding case_fvwm_execute_def Let_def by (intro textual_intros)

lemma textual_fvwm_get_window_info: "textual (case_fvwm_get_window_info ev a)"
  unfolding case_fvwm_get_window_info_def Let_def by (intro textual_intros)

lemma textual_fvwm_get_monitor_layout: "textual (case_fvwm_get_monitor_layout ev a)"
  unfolding case_fvwm_get_monitor_layout_def by (intro textual_intros)

lemma textual_fvwm_test_function: "textual (case_fvwm_test_function ev a)"
  unfolding case_fvwm_test_function_def Let_def by (intro textual_intros)

lemma textual_fvwm_restart: "textual (case_fvwm_restart ev a)"
  unfolding case_fvwm_restart_def by (intro textual_intros)

lemma textual_fvwm_validate_config: "textual (case_fvwm_validate_config ev a)"
  unfolding case_fvwm_validate_config_def by (intro textual_intros)

lemma textual_fvwm_get_keybindings: "textual (case_fvwm_get_keybindings ev a)"
  unfolding case_fvwm_get_keybindings_def Let_def by (intro textual_intros)

lemma textual_smart_tile_debug: "textual (case_smart_tile_debug ev a)"
  unfolding case_smart_tile_debug_def Let_def by (intro textual_intros)

lemma textual_smart_tile_state: "textual (case_smart_tile_state ev a)"
  unfolding case_smart_tile_state_def Let_def by (intro textual_intros)

lemma textual_fvwm_get_desktop_info: "textual (case_fvwm_get_desktop_info ev a)"
  unfolding case_fvwm_get_desktop_info_def by (intro textual_intros)

lemma textual_switch: "textual (executeTool_switch ev name a)"
  unfolding executeTool_switch_def
  by (intro textual_if textual_throw textual_fvwm_execute textual_fvwm_get_window_info
      textual_fvwm_get_monitor_layout textual_fvwm_test_function textual_fvwm_restart
      textual_fvwm_validate_config textual_fvwm_get_keybindings textual_smart_tile_debug
      textual_smart_tile_state textual_fvwm_get_desktop_info)

lemma executeTool_returns:
  "\<exists>r tr'. executeTool ev name a tr = (Inr r, tr') \<and> one_text r"
proof (cases "executeTool_switch ev name a tr")
  case (Pair res tr')
  show ?thesis
  proof (cases res)
    case (Inl e)
    with Pair show ?thesis by (simp add: executeTool_def tryE_def retE_def one_text_def)
  next
    case (Inr r)
    with Pair textual_switch [of ev name a] have "one_text r"
      by (auto simp: textual_def)
    with Pair Inr show ?thesis by (simp add: executeTool_def tryE_def)
  qed
qed

text \<open>
  Claim C9. For every tool name, every argument mapping and every environment,
  \<open>executeTool\<close> returns, and the \<open>content\<close> of the result (error flag set or not) is
  exactly one block of type \<open>text\<close> holding a string.
\<close>

theorem executeTool_one_text_block:
  "\<exists>r t tr'. executeTool ev name a tr = (Inr r, tr')
      \<and> content r = [\<lparr>block_type = ''text'', block_text = t\<rparr>]"
  using executeTool_returns [of ev name a tr] by (auto simp: one_text_def)

section \<open>Failing adapters\<close>

text \<open>
  Claim C6, as amended. \<open>executeTool("fvwm_execute", {command: s})\<close> whose \<open>FvwmCommand\<close>
  invocation fails never throws. It returns the envelope with \<open>isError\<close> set to true,
  carrying the failure, when the failure has a non-blank \<open>stderr\<close>; when \<open>stderr\<close> is
  absent, empty or blank it returns the text \<open>Command executed (no output)\<close> with no error
  flag. Whatever the argument mapping, the call returns.
\<close>

theorem fvwm_execute_failing_adapter:
  assumes cmd: "a ''command'' = Some (JStr s)"
    and fail: "exec ev tr (''FvwmCommand '' @ [dq] @ escape_quotes s @ [dq]) = Inl e"
  shows "executeTool ev ''fvwm_execute'' a tr =
           (Inr (if has_stderr e
                 then \<lparr>content = [\<lparr>block_type = ''text'',
                                    block_text = ''Error executing tool '' @ [CHR 0x27]
                                      @ ''fvwm_execute'' @ [CHR 0x27] @ '': '' @ error_to_string e\<rparr>],
                        isError = Some True\<rparr>
                 else text_result ''Command executed (no output)''),
            tr @ [Exec (''FvwmCommand '' @ [dq] @ escape_quotes s @ [dq])])
         \<and> (\<exists>r tr'. executeTool ev ''fvwm_execute'' b tr = (Inr r, tr'))"
proof
  show "executeTool ev ''fvwm_execute'' a tr =
           (Inr (if has_stderr e
                 then \<lparr>content = [\<lparr>block_type = ''text'',
                                    block_text = ''Error executing tool '' @ [CHR 0x27]
                                      @ ''fvwm_execute'' @ [CHR 0x27] @ '': '' @ error_to_string e\<rparr>],
                        isError = Some True\<rparr>
                 else text_result ''Command executed (no output)''),
            tr @ [Exec (''FvwmCommand '' @ [dq] @ escape_quotes s @ [dq])])"
    using assms
    by (simp add: executeTool_def executeTool_switch_def case_fvwm_execute_def get_prop_def
        tryE_def bindE_def liftE_def execAsync_def throwE_def retE_def)
  show "\<exists>r tr'. executeTool ev ''fvwm_execute'' b tr = (Inr r, tr')"
    using executeTool_returns [of ev "''fvwm_execute''" b tr] by blast
qed

theorem fvwm_execute_failing_adapter_witness:
  "[''command'' \<mapsto> JStr ''Restart''] ''command'' = Some (JStr ''Restart'')
   \<and> exec (sample_env (\<lambda>p. Inl enoent) (\<lambda>c. Inl (command_failed ''no display'')))
        [] (''FvwmCommand '' @ [dq] @ escape_quotes ''Restart'' @ [dq])
       = Inl (command_failed ''no display'')
   \<and> executeTool (sample_env (\<lambda>p. Inl enoent) (\<lambda>c. Inl (command_failed ''no display'')))
        ''fvwm_execute'' [''command'' \<mapsto> JStr ''Restart''] [] =
       (Inr \<lparr>content = [\<lparr>block_type = ''text'',
                          block_text = ''Error executing tool '' @ [CHR 0x27] @ ''fvwm_execute''
                                       @ [CHR 0x27] @ '': Error: Command failed''\<rparr>],
              isError = Some True\<rparr>,
        [Exec (''FvwmCommand '' @ [dq] @ ''Restart'' @ [dq])])"
proof -
  let ?ev = "sample_env (\<lambda>p. Inl enoent) (\<lambda>c. Inl (command_failed ''no display''))"
  have c: "[''command'' \<mapsto> JStr ''Restart''] ''command'' = Some (JStr ''Restart'')"
    by simp
  have f: "exec ?ev [] (''FvwmCommand '' @ [dq] @ escape_quotes ''Restart'' @ [dq])
             = Inl (command_failed ''no display'')"
    by (simp add: sample_env_def)
  show ?thesis
    using c f fvwm_execute_failing_adapter
      [where a = "[''command'' \<mapsto> JStr ''Restart'']" and s = "''Restart''", OF c f]
    by (simp add: has_stderr_def command_failed_def trim_def is_space_def error_to_string_def
        escape_quotes_def)
qed

text \<open>
  Claim C6 as stated fails: the invocation fails with an empty \<open>stderr\<close>, and the result
  carries no error flag.
\<close>

theorem fvwm_execute_blank_stderr_counterexample:
  "exec (sample_env (\<lambda>p. Inl enoent) (\<lambda>c. Inl (command_failed [])))
        [] (''FvwmCommand '' @ [dq] @ ''Restart'' @ [dq]) = Inl (command_failed [])
   \<and> executeTool (sample_env (\<lambda>p. Inl enoent) (\<lambda>c. Inl (command_failed [])))
        ''fvwm_execute'' [''command'' \<mapsto> JStr ''Restart''] [] =
       (Inr \<lparr>content = [\<lparr>block_type = ''text'', block_text = ''Command executed (no output)''\<rparr>],
              isError = None\<rparr>,
        [Exec (''FvwmCommand '' @ [dq] @ ''Restart'' @ [dq])])"
  by (simp add: executeTool_def executeTool_switch_def case_fvwm_execute_def get_prop_def
      tryE_def bindE_def liftE_def execAsync_def throwE_def retE_def sample_env_def
      command_failed_def has_stderr_def text_result_def escape_quotes_def)













section \<open>Missing required fields\<close>














section \<open>The menu prompt\<close>

lemma split_on_not_Nil: "split_on c s \<noteq> []"
  by (induction s) (auto split: list.splits)

lemma join_split_on: "join_with [c] (split_on c s) = s"
proof (induction s)
  case Nil
  show ?case by simp
next
  case (Cons x xs)
  obtain p ps where sp: "split_on c xs = p # ps"
    using split_on_not_Nil [of c xs] by (cases "split_on c xs") auto
  show ?case
  proof (cases "x = c")
    case True
    with Cons sp show ?thesis by simp
  next
    case False
    with Cons sp show ?thesis by (cases ps) auto
  qed
qed

lemma split_on_no_sep: "p \<in> set (split_on c s) \<Longrightarrow> c \<notin> set p"
  by (induction s arbitrary: p) (auto split: if_splits list.splits)

lemma length_number_items: "length (number_items k xs) = length xs"
  by (induction xs arbitrary: k) auto

lemma nth_number_items:
  "i < length xs \<Longrightarrow> number_items k xs ! i = show_nat (k + i + 1) @ ''. '' @ xs ! i"
proof (induction xs arbitrary: k i)
  case Nil
  then show ?case by simp
next
  case (Cons x xs)
  then show ?case by (cases i) auto
qed

text \<open>
  Claim C7. \<open>getPrompt("create-menu", {menu_name: "Ops", menu_items: "Close, Reload, Exit"})\<close>
  returns a single user message whose text lists \<open>1. Close\<close>, \<open>2. Reload\<close>, \<open>3. Exit\<close>
  in this order between the introduction and the fixed instructions. In general the
  \<open>menu_items\<close> string is split at its commas (the pieces, joined with commas, give the
  string back, and no piece holds a comma), each piece is trimmed, and the pieces are
  listed in input order, piece \<open>i\<close> (from 0) on a line of its own numbered \<open>i + 1\<close>.
\<close>

theorem create_menu_enumerates:
  "getPrompt ''create-menu''
      (Some [''menu_name'' \<mapsto> JStr ''Ops'', ''menu_items'' \<mapsto> JStr ''Close, Reload, Exit'']) =
     Inr \<lparr>messages = [\<lparr>role = ''user'',
            message_content = \<lparr>block_type = ''text'',
              block_text = ''Create an FVWM menu called '' @ [dq] @ ''Ops'' @ [dq]
                @ '' with the following items:'' @ [nl]
                @ ''1. Close'' @ [nl] @ ''2. Reload'' @ [nl] @ ''3. Exit'' @ [nl]
                @ join_with [nl] create_menu_rest\<rparr>\<rparr>]\<rparr>
   \<and> (m ''menu_name'' = Some (JStr n) \<and> m ''menu_items'' = Some (JStr s) \<longrightarrow>
        (let pieces = split_on (CHR '','') s;
             numbered = number_items 0 (map trim pieces)
         in getPrompt ''create-menu'' (Some m) =
              Inr \<lparr>messages = [\<lparr>role = ''user'',
                     message_content = \<lparr>block_type = ''text'',
                       block_text = create_menu_intro n @ [nl] @ join_with [nl] numbered @ [nl]
                         @ join_with [nl] create_menu_rest\<rparr>\<rparr>]\<rparr>
            \<and> join_with '','' pieces = s
            \<and> (\<forall>p \<in> set pieces. CHR '','' \<notin> set p)
            \<and> length numbered = length pieces
            \<and> (\<forall>i < length pieces.
                  numbered ! i = show_nat (i + 1) @ ''. '' @ trim (pieces ! i))))"
proof (intro conjI impI)
  show "getPrompt ''create-menu''
      (Some [''menu_name'' \<mapsto> JStr ''Ops'', ''menu_items'' \<mapsto> JStr ''Close, Reload, Exit'']) =
     Inr \<lparr>messages = [\<lparr>role = ''user'',
            message_content = \<lparr>block_type = ''text'',
              block_text = ''Create an FVWM menu called '' @ [dq] @ ''Ops'' @ [dq]
                @ '' with the following items:'' @ [nl]
                @ ''1. Close'' @ [nl] @ ''2. Reload'' @ [nl] @ ''3. Exit'' @ [nl]
                @ join_with [nl] create_menu_rest\<rparr>\<rparr>]\<rparr>"
    by (simp add: getPrompt_def bindS_def destructure_def get_prop_def user_message_def
        create_menu_text_def create_menu_intro_def trim_def is_space_def show_nat.simps)
next
  assume h: "m ''menu_name'' = Some (JStr n) \<and> m ''menu_items'' = Some (JStr s)"
  show "let pieces = split_on (CHR '','') s;
             numbered = number_items 0 (map trim pieces)
         in getPrompt ''create-menu'' (Some m) =
              Inr \<lparr>messages = [\<lparr>role = ''user'',
                     message_content = \<lparr>block_type = ''text'',
                       block_text = create_menu_intro n @ [nl] @ join_with [nl] numbered @ [nl]
                         @ join_with [nl] create_menu_rest\<rparr>\<rparr>]\<rparr>
            \<and> join_with '','' pieces = s
            \<and> (\<forall>p \<in> set pieces. CHR '','' \<notin> set p)
            \<and> length numbered = length pieces
            \<and> (\<forall>i < length pieces.
                  numbered ! i = show_nat (i + 1) @ ''. '' @ trim (pieces ! i))"
    using h join_split_on [of "CHR '',''" s]
    by (simp add: Let_def getPrompt_def bindS_def destructure_def get_prop_def user_message_def
        create_menu_text_def length_number_items nth_number_items split_on_no_sep)
qed

theorem create_menu_enumerates_witness:
  "[''menu_name'' \<mapsto> JStr ''Win'', ''menu_items'' \<mapsto> JStr '' Move ,Close''] ''menu_name''
     = Some (JStr ''Win'')
   \<and> [''menu_name'' \<mapsto> JStr ''Win'', ''menu_items'' \<mapsto> JStr '' Move ,Close''] ''menu_items''
     = Some (JStr '' Move ,Close'')
   \<and> getPrompt ''create-menu''
        (Some [''menu_name'' \<mapsto> JStr ''Win'', ''menu_items'' \<mapsto> JStr '' Move ,Close'']) =
       Inr \<lparr>messages = [\<lparr>role = ''user'',
              message_content = \<lparr>block_type = ''text'',
                block_text = create_menu_intro ''Win'' @ [nl] @ ''1. Move'' @ [nl] @ ''2. Close''
                  @ [nl] @ join_with [nl] create_menu_rest\<rparr>\<rparr>]\<rparr>"
  using create_menu_enumerates
    [of "[''menu_name'' \<mapsto> JStr ''Win'', ''menu_items'' \<mapsto> JStr '' Move ,Close'']"
        "''Win''" "'' Move ,Close''"]
  by (simp add: Let_def trim_def is_space_def show_nat.simps)

section \<open>Configuration validation\<close>

lemma filter_dropWhile_disjoint:
  "(\<And>x. Q x \<Longrightarrow> \<not> P x) \<Longrightarrow> filter P (dropWhile Q xs) = filter P xs"
  by (induction xs) auto

lemma filter_dq_trim: "filter (\<lambda>c. c = dq) (trim l) = filter (\<lambda>c. c = dq) l"
proof -
  have d: "\<And>x. is_space x \<Longrightarrow> \<not> x = dq" by (auto simp: is_space_def)
  have "filter (\<lambda>c. c = dq) (trim l)
          = rev (filter (\<lambda>c. c = dq) (dropWhile is_space (rev (dropWhile is_space l))))"
    by (simp add: trim_def rev_filter)
  also have "\<dots> = rev (filter (\<lambda>c. c = dq) (rev (dropWhile is_space l)))"
    using d by (simp add: filter_dropWhile_disjoint)
  also have "\<dots> = filter (\<lambda>c. c = dq) (dropWhile is_space l)"
    by (simp add: rev_filter)
  also have "\<dots> = filter (\<lambda>c. c = dq) l"
    using d by (simp add: filter_dropWhile_disjoint)
  finally show ?thesis .
qed

lemma check_line_eq:
  "check_line idx l =
     (if odd (length (filter (\<lambda>c. c = dq) l))
      then [''Line '' @ show_nat (idx + 1) @ '': Unmatched double quotes''] else [])
     @ (if typo_match (trim l)
        then [''Line '' @ show_nat (idx + 1) @ '': Possible typo in command''] else [])"
  by (simp add: check_line_def Let_def filter_dq_trim odd_iff_mod_2_eq_one)

lemma check_lines_enumerate:
  "check_lines k ls =
     concat (map (\<lambda>(idx, l).
               (if odd (length (filter (\<lambda>c. c = dq) l))
                then [''Line '' @ show_nat (idx + 1) @ '': Unmatched double quotes''] else [])
               @ (if typo_match (trim l)
                  then [''Line '' @ show_nat (idx + 1) @ '': Possible typo in command''] else []))
             (enumerate k ls))"
  by (induction ls arbitrary: k) (auto simp: check_line_eq)

lemma check_lines_Nil_iff:
  "check_lines k ls = [] \<longleftrightarrow>
     (\<forall>l \<in> set ls. \<not> odd (length (filter (\<lambda>c. c = dq) l)) \<and> \<not> typo_match (trim l))"
  by (induction ls arbitrary: k) (auto simp: check_line_eq)

lemma length_check_lines:
  "length (check_lines k ls) =
     length (filter (\<lambda>l. odd (length (filter (\<lambda>c. c = dq) l))) ls)
     + length (filter (\<lambda>l. typo_match (trim l)) ls)"
  by (induction ls arbitrary: k) (auto simp: check_line_eq)

text \<open>
  Claim C10, as amended. When the configuration file can be read,
  \<open>executeTool("fvwm_validate_config", ...)\<close> reports \<open>Configuration appears valid\<close> with the
  number of lines if and only if every line holds an even number of double quotes and no
  trimmed line begins with \<open>DestroyFun\<close>, \<open>AddToFun\<close>, \<open>DestroyMen\<close> or \<open>AddToMen\<close> followed
  by white space. Otherwise it reports, in line order and under the 1-based line number,
  one issue for each check that a line fails: a line that fails both checks is reported
  twice, so the number of issues is the number of lines with unmatched quotes plus the
  number of lines with a typo.
\<close>

theorem validate_config_report:
  assumes rd: "readFile ev tr (configPath ev a) = Inr config"
  shows "let lines = split_on nl config;
             odd_quotes = (\<lambda>l. odd (length (filter (\<lambda>c. c = dq) l)));
             typo = (\<lambda>l. typo_match (trim l));
             issues = concat (map (\<lambda>(idx, l).
                        (if odd_quotes l
                         then [''Line '' @ show_nat (idx + 1) @ '': Unmatched double quotes'']
                         else [])
                        @ (if typo l
                           then [''Line '' @ show_nat (idx + 1) @ '': Possible typo in command'']
                           else []))
                      (enumerate 0 lines))
         in executeTool ev ''fvwm_validate_config'' a tr =
              (Inr (text_result
                      (if \<forall>l \<in> set lines. \<not> odd_quotes l \<and> \<not> typo l
                       then ''Configuration appears valid ('' @ show_nat (length lines)
                            @ '' lines checked)''
                       else ''Found '' @ show_nat (length issues) @ '' potential issues:'' @ [nl]
                            @ join_with [nl] issues)),
               tr @ [ReadFile (configPath ev a)])
            \<and> length issues = length (filter odd_quotes lines) + length (filter typo lines)"
proof -
  let ?lines = "split_on nl config"
  have run: "executeTool ev ''fvwm_validate_config'' a tr =
               (Inr (text_result (validate_text config)), tr @ [ReadFile (configPath ev a)])"
    using rd
    by (simp add: executeTool_def executeTool_switch_def case_fvwm_validate_config_def
        tryE_def bindE_def do_readFile_def retE_def)
  have en: "check_lines 0 ?lines =
      concat (map (\<lambda>(idx, l).
                (if odd (length (filter (\<lambda>c. c = dq) l))
                 then [''Line '' @ show_nat (idx + 1) @ '': Unmatched double quotes''] else [])
                @ (if typo_match (trim l)
                   then [''Line '' @ show_nat (idx + 1) @ '': Possible typo in command''] else []))
              (enumerate 0 ?lines))"
    by (rule check_lines_enumerate)
  have vt: "validate_text config =
      (if \<forall>l \<in> set ?lines. \<not> odd (length (filter (\<lambda>c. c = dq) l)) \<and> \<not> typo_match (trim l)
       then ''Configuration appears valid ('' @ show_nat (length ?lines) @ '' lines checked)''
       else ''Found '' @ show_nat (length (check_lines 0 ?lines)) @ '' potential issues:'' @ [nl]
            @ join_with [nl] (check_lines 0 ?lines))"
    using check_lines_Nil_iff [of 0 ?lines]
    by (simp add: validate_text_def Let_def)
  have len: "length (check_lines 0 ?lines) =
     length (filter (\<lambda>l. odd (length (filter (\<lambda>c. c = dq) l))) ?lines)
     + length (filter (\<lambda>l. typo_match (trim l)) ?lines)"
    by (rule length_check_lines)
  show ?thesis
    unfolding Let_def run vt
    using len unfolding en by simp
qed

theorem validate_config_report_witness:
  "readFile (sample_env (\<lambda>p. Inr (''Key a'' @ [nl] @ ''AddToFun x'')) (\<lambda>c. Inr ([], []))) []
      (configPath (sample_env (\<lambda>p. Inr (''Key a'' @ [nl] @ ''AddToFun x'')) (\<lambda>c. Inr ([], [])))
         Map.empty)
     = Inr (''Key a'' @ [nl] @ ''AddToFun x'')
   \<and> executeTool (sample_env (\<lambda>p. Inr (''Key a'' @ [nl] @ ''AddToFun x'')) (\<lambda>c. Inr ([], [])))
        ''fvwm_validate_config'' Map.empty [] =
       (Inr (text_result (''Found 1 potential issues:'' @ [nl]
                          @ ''Line 2: Possible typo in command'')),
        [ReadFile (JStr ''/home/user/.fvwm/config'')])"
proof -
  let ?ev = "sample_env (\<lambda>p. Inr (''Key a'' @ [nl] @ ''AddToFun x'')) (\<lambda>c. Inr ([], []))"
  have rd: "readFile ?ev [] (configPath ?ev Map.empty) = Inr (''Key a'' @ [nl] @ ''AddToFun x'')"
    by (simp add: sample_env_def)
  show ?thesis
    using rd validate_config_report [OF rd]
    by (simp add: Let_def configPath_def get_prop_def sample_env_def trim_def is_space_def
        typo_match_def startsWith_def show_nat.simps)
qed

text \<open>
  Claim C10 as stated fails: the file has one line, which fails both checks, and two
  issues are reported for it.
\<close>

theorem validate_config_two_issues_counterexample:
  "length (split_on nl (''AddToFun '' @ [dq] @ ''x'')) = 1
   \<and> executeTool (sample_env (\<lambda>p. Inr (''AddToFun '' @ [dq] @ ''x'')) (\<lambda>c. Inr ([], [])))
        ''fvwm_validate_config'' Map.empty [] =
       (Inr \<lparr>content = [\<lparr>block_type = ''text'',
                block_text = ''Found 2 potential issues:'' @ [nl]
                  @ ''Line 1: Unmatched double quotes'' @ [nl]
                  @ ''Line 1: Possible typo in command''\<rparr>],
              isError = None\<rparr>,
        [ReadFile (JStr ''/home/user/.fvwm/config'')])"
  by (simp add: executeTool_def executeTool_switch_def case_fvwm_validate_config_def
        tryE_def bindE_def do_readFile_def retE_def sample_env_def configPath_def get_prop_def
        text_result_def validate_text_def Let_def check_line_def trim_def is_space_def
        typo_match_def startsWith_def show_nat.simps)

end
